theory Spec2Isabelle
  imports Main "HOL-Library.Sublist"
begin

section \<open>Data model (shared/schema.ts)\<close>

text \<open>
  The three tables of the schema. Every table has a serial primary key \<open>id\<close>; the
  field is called \<open>u_id\<close>, \<open>f_id\<close> and \<open>p_id\<close> here, one name per record. The
  \<open>createdAt\<close> timestamps play no part in any handler and are left out.
\<close>

record User =
  u_id :: int
  username :: string
  password :: string
  isAdmin :: bool

record File =
  f_id :: int
  f_name :: string
  path :: string
  f_size :: int
  mimeType :: string
  uploadedBy :: int

record FilePermission =
  p_id :: int
  fileId :: int
  userId :: int
  canRead :: bool
  canWrite :: bool
  canShare :: bool

text \<open>
  The value handed to \<open>createFilePermission\<close> by the POST route. \<open>req.body.userId\<close>
  is whatever the client sent: \<open>None\<close> stands for an absent field.
\<close>

record InsertFilePermission =
  ins_fileId :: int
  ins_userId :: "int option"
  ins_canRead :: bool
  ins_canWrite :: bool
  ins_canShare :: bool

text \<open>
  The object handed to \<open>updateFilePermission\<close> by the PATCH route: the three flags
  of the request body, each \<open>None\<close> when the body does not have the field.
\<close>

record permissionPatch =
  set_canRead :: "bool option"
  set_canWrite :: "bool option"
  set_canShare :: "bool option"

section \<open>WebSocket peers (server/routes.ts, lines 219-231)\<close>

datatype readyState = CONNECTING | OPEN | CLOSING | CLOSED

text \<open>
  One member of \<open>wss.clients\<close>; \<open>sent\<close> lists, oldest first, every message the
  server has passed to \<open>client.send\<close> on this socket.
\<close>

record client =
  c_id :: nat
  readyState :: readyState
  sent :: "string list"

section \<open>Server state\<close>

text \<open>
  The database tables in row order, the sequence behind the serial key of
  \<open>file_permissions\<close>, the paths present in the upload directory, and the set of
  connected sockets. A \<open>select\<close> without \<open>order by\<close> is read in table order; a
  row that an \<open>update\<close> rewrites is stored anew and is read last from then on.
\<close>

record server =
  users :: "User list"
  files :: "File list"
  filePermissions :: "FilePermission list"
  permissionSeq :: int
  disk :: "string list"
  clients :: "client list"

section \<open>Numbers from the request\<close>

text \<open>
  What \<open>parseInt\<close> makes of a path parameter: an integer of any size, or \<open>NaN\<close>
  when the text does not start with a number or the parameter is undefined. The id
  columns are 32-bit integers (\<open>serial\<close>): a query given \<open>NaN\<close> or an integer
  outside that range is refused by the database and the call to the storage rejects.
\<close>

datatype number = NaN | Num int

datatype dbError =
  NotNullViolation
  | ForeignKeyViolation
  | NoValuesToSet
  | InvalidTextRepresentation
  | NumericValueOutOfRange

definition int4 :: "int \<Rightarrow> bool" where
  "int4 i \<longleftrightarrow> - 2147483648 \<le> i \<and> i \<le> 2147483647"

fun integerParam :: "number \<Rightarrow> dbError + int" where
  "integerParam NaN = Inl InvalidTextRepresentation"
| "integerParam (Num i) = (if int4 i then Inr i else Inl NumericValueOutOfRange)"

section \<open>Storage (server/storage.ts)\<close>

definition getFiles :: "server \<Rightarrow> File list" where
  "getFiles s = files s"

definition getFile :: "server \<Rightarrow> number \<Rightarrow> dbError + File option" where
  \<comment> \<open>\<open>const [file] = ...\<close>: the first selected row, or undefined\<close>
  "getFile s n =
     (case integerParam n of
        Inl e \<Rightarrow> Inl e
      | Inr i \<Rightarrow> Inr (find (\<lambda>f. f_id f = i) (files s)))"

definition deleteFile :: "server \<Rightarrow> int \<Rightarrow> server" where
  \<comment> \<open>called with the id of a row just read; the foreign key of
      \<open>file_permissions.file_id\<close> cascades on delete\<close>
  "deleteFile s i =
     s\<lparr>files := filter (\<lambda>f. f_id f \<noteq> i) (files s),
       filePermissions := filter (\<lambda>p. fileId p \<noteq> i) (filePermissions s)\<rparr>"


definition getUserFilePermission :: "server \<Rightarrow> int \<Rightarrow> int \<Rightarrow> FilePermission option" where
  \<comment> \<open>\<open>const [permission] = ...\<close>: the first selected row, or undefined; the two ids
      are those of rows, or a path parameter that the database has accepted\<close>
  "getUserFilePermission s fid uid =
     find (\<lambda>p. fileId p = fid \<and> userId p = uid) (filePermissions s)"

definition createFilePermission ::
  "server \<Rightarrow> InsertFilePermission \<Rightarrow> (dbError + FilePermission) \<times> server" where
  \<comment> \<open>a plain insert: the table constrains the key, the two references and nothing
      else; the sequence advances whether or not the insert goes through\<close>
  "createFilePermission s ins =
     (let s' = s\<lparr>permissionSeq := permissionSeq s + 1\<rparr> in
      case ins_userId ins of
        None \<Rightarrow> (Inl NotNullViolation, s')
      | Some uid \<Rightarrow>
          if ins_fileId ins \<notin> set (map f_id (files s)) \<or> uid \<notin> set (map u_id (users s))
          then (Inl ForeignKeyViolation, s')
          else
            (let newPermission =
                   \<lparr>p_id = permissionSeq s, fileId = ins_fileId ins, userId = uid,
                    canRead = ins_canRead ins, canWrite = ins_canWrite ins,
                    canShare = ins_canShare ins\<rparr>
             in (Inr newPermission,
                 s'\<lparr>filePermissions := filePermissions s @ [newPermission]\<rparr>)))"

definition applyPatch :: "permissionPatch \<Rightarrow> FilePermission \<Rightarrow> FilePermission" where
  \<comment> \<open>\<open>.set(permission)\<close>: a field that is undefined is left as it is\<close>
  "applyPatch upd p =
     p\<lparr>canRead := (case set_canRead upd of None \<Rightarrow> canRead p | Some b \<Rightarrow> b),
       canWrite := (case set_canWrite upd of None \<Rightarrow> canWrite p | Some b \<Rightarrow> b),
       canShare := (case set_canShare upd of None \<Rightarrow> canShare p | Some b \<Rightarrow> b)\<rparr>"

definition updateFilePermission ::
  "server \<Rightarrow> number \<Rightarrow> permissionPatch \<Rightarrow> (dbError + FilePermission option) \<times> server" where
  \<comment> \<open>\<open>where id = ...\<close> is the only condition; an update that sets nothing is refused
      by the query builder; the rows that are hit are rewritten behind the others; the
      result is the first returned row, or undefined\<close>
  "updateFilePermission s permissionId upd =
     (if set_canRead upd = None \<and> set_canWrite upd = None \<and> set_canShare upd = None
      then (Inl NoValuesToSet, s)
      else
        (case integerParam permissionId of
           Inl e \<Rightarrow> (Inl e, s)
         | Inr i \<Rightarrow>
             (let updated = map (applyPatch upd) (filter (\<lambda>p. p_id p = i) (filePermissions s))
              in (Inr (case updated of [] \<Rightarrow> None | p # ps \<Rightarrow> Some p),
                  s\<lparr>filePermissions :=
                      filter (\<lambda>p. p_id p \<noteq> i) (filePermissions s) @ updated\<rparr>))))"

definition deleteFilePermission :: "server \<Rightarrow> number \<Rightarrow> dbError + server" where
  "deleteFilePermission s permissionId =
     (case integerParam permissionId of
        Inl e \<Rightarrow> Inl e
      | Inr i \<Rightarrow> Inr (s\<lparr>filePermissions := filter (\<lambda>p. p_id p \<noteq> i) (filePermissions s)\<rparr>))"

section \<open>Routes (server/routes.ts)\<close>

text \<open>
  A handler gets the state, \<open>req.user\<close> (\<open>None\<close> when the request is not
  authenticated), what \<open>parseInt\<close> made of the path parameters, and the body, and
  gives the response and the state it leaves behind. A call to the storage that rejects
  outside any \<open>try\<close> ends the handler with no response sent.
\<close>

datatype body =
  NoBody
  | Message string
  | FileContent File
  | FilesBody "File list"
  | PermissionBody "FilePermission option"
  | PermissionsBody "FilePermission list"

datatype response =
  Response nat body
  | Unhandled \<comment> \<open>the handler's promise rejected outside any try block\<close>

datatype gate = Next | Respond response

definition sendStatus :: "nat \<Rightarrow> response" where
  "sendStatus code = Response code NoBody"

definition status :: "response \<Rightarrow> nat option" where
  \<comment> \<open>the status code of a response, if one was sent\<close>
  "status r = (case r of Response code b \<Rightarrow> Some code | Unhandled \<Rightarrow> None)"

definition ensureFileAccess :: "server \<Rightarrow> User option \<Rightarrow> number \<Rightarrow> gate" where
  \<comment> \<open>\<open>fid\<close> is \<open>parseInt(req.params.fileId)\<close>; the second query is given
      the same number and binds it to the same kind of column\<close>
  "ensureFileAccess s reqUser fid =
     (case reqUser of
        None \<Rightarrow> Respond (sendStatus 401)
      | Some u \<Rightarrow>
          (case getFile s fid of
             Inl e \<Rightarrow> Respond Unhandled
           | Inr None \<Rightarrow> Respond (Response 404 (Message ''File not found''))
           | Inr (Some file) \<Rightarrow>
               if isAdmin u \<or> uploadedBy file = u_id u then Next
               else
                 (case integerParam fid of
                    Inl e \<Rightarrow> Respond Unhandled
                  | Inr i \<Rightarrow>
                      (case getUserFilePermission s i (u_id u) of
                         None \<Rightarrow> Respond (Response 403 (Message ''Access denied''))
                       | Some permission \<Rightarrow>
                           if \<not> canRead permission
                           then Respond (Response 403 (Message ''Access denied''))
                           else Next))))"

subsection \<open>GET /api/files\<close>

definition accessibleFiles :: "server \<Rightarrow> User \<Rightarrow> File list \<Rightarrow> File option list" where
  \<comment> \<open>the \<open>files.map\<close> of the handler: the file itself or null\<close>
  "accessibleFiles s u fs =
     map (\<lambda>file.
            if isAdmin u \<or> uploadedBy file = u_id u then Some file
            else
              (case getUserFilePermission s (f_id file) (u_id u) of
                 None \<Rightarrow> None
               | Some permission \<Rightarrow> if canRead permission then Some file else None))
         fs"

fun filterBoolean :: "'a option list \<Rightarrow> 'a list" where
  "filterBoolean [] = []"
| "filterBoolean (None # xs) = filterBoolean xs"
| "filterBoolean (Some x # xs) = x # filterBoolean xs"

definition filterReadable :: "server \<Rightarrow> User \<Rightarrow> File list \<Rightarrow> File list" where
  \<comment> \<open>\<open>accessibleFiles.filter(Boolean)\<close>, for any list of files\<close>
  "filterReadable s u fs = filterBoolean (accessibleFiles s u fs)"

definition get_files :: "server \<Rightarrow> User option \<Rightarrow> response" where
  "get_files s reqUser =
     (case reqUser of
        None \<Rightarrow> sendStatus 401
      | Some u \<Rightarrow> Response 200 (FilesBody (filterReadable s u (getFiles s))))"

subsection \<open>GET /api/files/:id\<close>


subsection \<open>The permission routes\<close>

text \<open>
  The fields of \<open>req.body\<close> that the permission routes read; \<open>None\<close> is a field
  the body does not have. The flags are booleans, as the client's types have them.
\<close>

record requestBody =
  body_userId :: "int option"
  body_canRead :: "bool option"
  body_canWrite :: "bool option"
  body_canShare :: "bool option"


definition post_permission ::
  "server \<Rightarrow> User option \<Rightarrow> number \<Rightarrow> requestBody \<Rightarrow> response \<times> server" where
  "post_permission s reqUser fid b =
     (case ensureFileAccess s reqUser fid of
        Respond r \<Rightarrow> (r, s)
      | Next \<Rightarrow>
          (case reqUser of
             None \<Rightarrow> (Unhandled, s)
           | Some u \<Rightarrow>
               (case getFile s fid of
                  Inl e \<Rightarrow> (Unhandled, s)
                | Inr None \<Rightarrow> (Response 404 (Message ''File not found''), s)
                | Inr (Some file) \<Rightarrow>
                    (case integerParam fid of
                       Inl e \<Rightarrow> (Unhandled, s)
                     | Inr i \<Rightarrow>
                         if \<not> isAdmin u \<and> uploadedBy file \<noteq> u_id u \<and>
                            \<not> (case getUserFilePermission s i (u_id u) of
                                 None \<Rightarrow> False
                               | Some permission \<Rightarrow> canShare permission)
                         then (Response 403
                                 (Message ''You don't have permission to share this file''), s)
                         else
                           (case createFilePermission s
                                   \<lparr>ins_fileId = i, ins_userId = body_userId b,
                                    ins_canRead =
                                      (case body_canRead b of None \<Rightarrow> True | Some v \<Rightarrow> v),
                                    ins_canWrite =
                                      (case body_canWrite b of None \<Rightarrow> False | Some v \<Rightarrow> v),
                                    ins_canShare =
                                      (case body_canShare b of None \<Rightarrow> False | Some v \<Rightarrow> v)\<rparr>
                            of
                              (Inr permission, s') \<Rightarrow>
                                (Response 201 (PermissionBody (Some permission)), s')
                            | (Inl e, s') \<Rightarrow>
                                (Response 400 (Message ''Invalid permission data''), s'))))))"

definition patch_permission ::
  "server \<Rightarrow> User option \<Rightarrow> number \<Rightarrow> number \<Rightarrow> requestBody \<Rightarrow> response \<times> server" where
  "patch_permission s reqUser fid permissionId b =
     (case ensureFileAccess s reqUser fid of
        Respond r \<Rightarrow> (r, s)
      | Next \<Rightarrow>
          (case reqUser of
             None \<Rightarrow> (Unhandled, s)
           | Some u \<Rightarrow>
               (case getFile s fid of
                  Inl e \<Rightarrow> (Unhandled, s)
                | Inr None \<Rightarrow> (Response 404 (Message ''File not found''), s)
                | Inr (Some file) \<Rightarrow>
                    if \<not> isAdmin u \<and> uploadedBy file \<noteq> u_id u
                    then (Response 403
                            (Message ''You don't have permission to modify sharing settings''), s)
                    else
                      (case updateFilePermission s permissionId
                              \<lparr>set_canRead = body_canRead b, set_canWrite = body_canWrite b,
                               set_canShare = body_canShare b\<rparr>
                       of
                         (Inr permission, s') \<Rightarrow> (Response 200 (PermissionBody permission), s')
                       | (Inl e, s') \<Rightarrow>
                           (Response 400 (Message ''Invalid permission data''), s')))))"

definition delete_permission ::
  "server \<Rightarrow> User option \<Rightarrow> number \<Rightarrow> number \<Rightarrow> response \<times> server" where
  "delete_permission s reqUser fid permissionId =
     (case ensureFileAccess s reqUser fid of
        Respond r \<Rightarrow> (r, s)
      | Next \<Rightarrow>
          (case reqUser of
             None \<Rightarrow> (Unhandled, s)
           | Some u \<Rightarrow>
               (case getFile s fid of
                  Inl e \<Rightarrow> (Unhandled, s)
                | Inr None \<Rightarrow> (Response 404 (Message ''File not found''), s)
                | Inr (Some file) \<Rightarrow>
                    if \<not> isAdmin u \<and> uploadedBy file \<noteq> u_id u
                    then (Response 403
                            (Message ''You don't have permission to modify sharing settings''), s)
                    else
                      (case deleteFilePermission s permissionId of
                         Inl e \<Rightarrow> (Unhandled, s)
                       | Inr s' \<Rightarrow> (sendStatus 200, s')))))"

subsection \<open>DELETE /api/files/:id\<close>

definition unlink :: "server \<Rightarrow> string \<Rightarrow> server option" where
  \<comment> \<open>\<open>fs.unlink\<close>: rejects when the path is not there\<close>
  "unlink s p = (if p \<in> set (disk s) then Some (s\<lparr>disk := removeAll p (disk s)\<rparr>) else None)"

definition delete_file :: "server \<Rightarrow> User option \<Rightarrow> number \<Rightarrow> response \<times> server" where
  "delete_file s reqUser i =
     (case reqUser of
        None \<Rightarrow> (sendStatus 401, s)
      | Some u \<Rightarrow>
          if \<not> isAdmin u then (sendStatus 403, s)
          else
            (case getFile s i of
               Inl e \<Rightarrow> (Unhandled, s)
             | Inr None \<Rightarrow> (Response 404 (Message ''File not found''), s)
             | Inr (Some file) \<Rightarrow>
                 (case unlink s (path file) of
                    None \<Rightarrow> (Unhandled, s)
                  | Some s' \<Rightarrow> (sendStatus 200, deleteFile s' (f_id file)))))"

subsection \<open>The WebSocket server\<close>

definition onMessage :: "server \<Rightarrow> string \<Rightarrow> server" where
  \<comment> \<open>the \<open>message\<close> handler of every connection: \<open>wss.clients.forEach\<close>\<close>
  "onMessage s message =
     s\<lparr>clients :=
         map (\<lambda>client.
                if readyState client = OPEN then client\<lparr>sent := sent client @ [message]\<rparr>
                else client)
             (clients s)\<rparr>"

section \<open>The share dialog (client, \<open>handleAddPermission\<close>)\<close>

datatype dialogOutcome =
  UserNotFound \<comment> \<open>toast "User not found", nothing sent\<close>
  | InvalidOperation \<comment> \<open>toast "You cannot share with yourself", nothing sent\<close>
  | Mutate requestBody \<comment> \<open>the body posted to \<open>/api/files/:fileId/permissions\<close>\<close>

definition handleAddPermission :: "User list \<Rightarrow> User option \<Rightarrow> string \<Rightarrow> dialogOutcome" where
  "handleAddPermission us currentUser name =
     (case find (\<lambda>u. username u = name) us of
        None \<Rightarrow> UserNotFound
      | Some userToShare \<Rightarrow>
          if Some (u_id userToShare) = map_option u_id currentUser then InvalidOperation
          else Mutate \<lparr>body_userId = Some (u_id userToShare), body_canRead = Some True,
                        body_canWrite = Some False, body_canShare = Some False\<rparr>)"

section \<open>A small installation\<close>

text \<open>
  Four users, two uploads and three grants, used to run the handlers on concrete
  requests: alice uploaded the report, bob the memo, root is the administrator.
\<close>

definition alice :: User where
  "alice = \<lparr>u_id = 1, username = ''alice'', password = ''a'', isAdmin = False\<rparr>"

definition bob :: User where
  "bob = \<lparr>u_id = 2, username = ''bob'', password = ''b'', isAdmin = False\<rparr>"

definition carol :: User where
  "carol = \<lparr>u_id = 3, username = ''carol'', password = ''c'', isAdmin = False\<rparr>"

definition root :: User where
  "root = \<lparr>u_id = 4, username = ''root'', password = ''r'', isAdmin = True\<rparr>"

definition report :: File where
  "report = \<lparr>f_id = 1, f_name = ''report.txt'', path = ''uploads/a1'', f_size = 10,
              mimeType = ''text/plain'', uploadedBy = 1\<rparr>"

definition memo :: File where
  "memo = \<lparr>f_id = 2, f_name = ''memo.txt'', path = ''uploads/b2'', f_size = 20,
             mimeType = ''text/plain'', uploadedBy = 2\<rparr>"

definition fresh_server :: server where
  \<comment> \<open>no grants yet; one open socket and one closed\<close>
  "fresh_server =
     \<lparr>users = [alice, bob, carol, root], files = [report, memo], filePermissions = [],
      permissionSeq = 1, disk = [''uploads/a1'', ''uploads/b2''],
      clients = [\<lparr>c_id = 0, readyState = OPEN, sent = []\<rparr>,
                 \<lparr>c_id = 1, readyState = CLOSED, sent = []\<rparr>]\<rparr>"

definition bob_on_report :: FilePermission where
  "bob_on_report =
     \<lparr>p_id = 1, fileId = 1, userId = 2, canRead = True, canWrite = False, canShare = True\<rparr>"

definition carol_on_report :: FilePermission where
  "carol_on_report =
     \<lparr>p_id = 2, fileId = 1, userId = 3, canRead = True, canWrite = False, canShare = False\<rparr>"

definition carol_on_memo :: FilePermission where
  \<comment> \<open>may share, may not read\<close>
  "carol_on_memo =
     \<lparr>p_id = 3, fileId = 2, userId = 3, canRead = False, canWrite = False, canShare = True\<rparr>"

definition shared_server :: server where
  "shared_server =
     fresh_server\<lparr>filePermissions := [bob_on_report, carol_on_report, carol_on_memo],
                  permissionSeq := 4\<rparr>"

definition share_with :: "int \<Rightarrow> requestBody" where
  \<comment> \<open>the body the share dialog posts: the user and the default flags\<close>
  "share_with uid =
     \<lparr>body_userId = Some uid, body_canRead = Some True, body_canWrite = Some False,
      body_canShare = Some False\<rparr>"

definition revoke_read :: requestBody where
  "revoke_read =
     \<lparr>body_userId = None, body_canRead = Some False, body_canWrite = None,
      body_canShare = None\<rparr>"

definition allow_write :: requestBody where
  "allow_write =
     \<lparr>body_userId = None, body_canRead = None, body_canWrite = Some True,
      body_canShare = None\<rparr>"

definition alice_denied_on_report :: FilePermission where
  \<comment> \<open>a stored grant for the uploader herself, with every flag off\<close>
  "alice_denied_on_report =
     \<lparr>p_id = 9, fileId = 1, userId = 1, canRead = False, canWrite = False, canShare = False\<rparr>"

definition primaryKeyOk :: "server \<Rightarrow> bool" where
  \<comment> \<open>the serial primary key of \<open>file_permissions\<close>: no id twice, every id drawn
      from the sequence already\<close>
  "primaryKeyOk s \<longleftrightarrow>
     distinct (map p_id (filePermissions s)) \<and>
     list_all (\<lambda>p. p_id p < permissionSeq s) (filePermissions s)"

lemmas example_defs =
  alice_def bob_def carol_def root_def report_def memo_def fresh_server_def
  bob_on_report_def carol_on_report_def carol_on_memo_def shared_server_def
  share_with_def revoke_read_def allow_write_def alice_denied_on_report_def

section \<open>Properties\<close>

subsection \<open>The access gate\<close>

lemma getFile_found:
  "getFile s n = Inr (Some file) \<Longrightarrow>
   integerParam n = Inr (f_id file) \<and> file \<in> set (files s)"
  unfolding getFile_def by (auto simp: find_Some_iff split: sum.splits)





subsection \<open>The file listing\<close>

lemma filterBoolean_map:
  "filterBoolean (map (\<lambda>x. if P x then Some x else None) xs) = filter P xs"
  by (induction xs) auto

lemma filterReadable_filter:
  "filterReadable s u fs =
     filter (\<lambda>file. isAdmin u \<or> uploadedBy file = u_id u \<or>
                (case getUserFilePermission s (f_id file) (u_id u) of
                   None \<Rightarrow> False | Some permission \<Rightarrow> canRead permission)) fs"
proof -
  have "accessibleFiles s u fs =
        map (\<lambda>file. if isAdmin u \<or> uploadedBy file = u_id u \<or>
                (case getUserFilePermission s (f_id file) (u_id u) of
                   None \<Rightarrow> False | Some permission \<Rightarrow> canRead permission)
              then Some file else None) fs"
    unfolding accessibleFiles_def by (rule map_cong) (auto split: option.splits)
  then show ?thesis
    by (simp add: filterReadable_def filterBoolean_map)
qed

text \<open>
  C8. Filtering a list of files for a user a second time changes nothing, and the files
  that are kept stand in the order they had in the input.
\<close>

theorem filterReadable_idempotent_ordered:
  "filterReadable s u (filterReadable s u fs) = filterReadable s u fs \<and>
   subseq (filterReadable s u fs) fs"
  by (simp add: filterReadable_filter)

theorem filterReadable_idempotent_ordered_witness:
  "filterReadable shared_server carol [memo, report, memo, report] = [report, report] \<and>
   filterReadable shared_server carol
     (filterReadable shared_server carol [memo, report, memo, report]) = [report, report] \<and>
   subseq (filterReadable shared_server carol [memo, report, memo, report])
     [memo, report, memo, report]"
  using filterReadable_idempotent_ordered [of shared_server carol "[memo, report, memo, report]"]
  by (simp add: filterReadable_def accessibleFiles_def getUserFilePermission_def example_defs)

subsection \<open>What the owner and the administrator may do\<close>

lemma ensureFileAccess_owner_admin:
  "getFile s n = Inr (Some file) \<Longrightarrow> isAdmin u \<or> uploadedBy file = u_id u \<Longrightarrow>
   ensureFileAccess s (Some u) n = Next"
  by (simp add: ensureFileAccess_def)

lemma getFile_filePermissions_update [simp]:
  "getFile (s\<lparr>filePermissions := ps\<rparr>) n = getFile s n"
  by (simp add: getFile_def split: sum.splits)

lemma status_createFilePermission:
  "status (fst (case createFilePermission s ins of
                  (Inr permission, s') \<Rightarrow> (Response 201 (PermissionBody (Some permission)), s')
                | (Inl e, s') \<Rightarrow> (Response 400 (Message ''Invalid permission data''), s')))
     \<in> {Some 201, Some 400}"
  by (cases "createFilePermission s ins") (auto simp: status_def split: sum.splits)

lemma status_updateFilePermission:
  "status (fst (case updateFilePermission s n upd of
                  (Inr permission, s') \<Rightarrow> (Response 200 (PermissionBody permission), s')
                | (Inl e, s') \<Rightarrow> (Response 400 (Message ''Invalid permission data''), s')))
     \<in> {Some 200, Some 400}"
  by (cases "updateFilePermission s n upd") (auto simp: status_def split: sum.splits)






subsection \<open>Who may manage grants\<close>

text \<open>
  C3, as the routes have it. For an authenticated actor and an existing file: creating a
  grant is refused with 403 unless the actor is an administrator, the uploader, or has a
  grant on the file (the row \<open>getUserFilePermission\<close> returns) with both \<open>canRead\<close>
  and \<open>canShare\<close>; updating and deleting a grant are refused with 403 unless the
  actor is an administrator or the uploader.
\<close>

theorem grant_management_authorization:
  assumes "getFile s n = Inr (Some file)"
  shows "(status (fst (post_permission s (Some u) n b)) \<noteq> Some 403 \<longleftrightarrow>
            isAdmin u \<or> uploadedBy file = u_id u \<or>
            (\<exists>p. getUserFilePermission s (f_id file) (u_id u) = Some p \<and>
                 canRead p \<and> canShare p)) \<and>
         (status (fst (patch_permission s (Some u) n pid b)) \<noteq> Some 403 \<longleftrightarrow>
            isAdmin u \<or> uploadedBy file = u_id u) \<and>
         (status (fst (delete_permission s (Some u) n pid)) \<noteq> Some 403 \<longleftrightarrow>
            isAdmin u \<or> uploadedBy file = u_id u)"
proof -
  have param: "integerParam n = Inr (f_id file)"
    using getFile_found [OF assms] by simp
  have c: "status (fst (case createFilePermission s ins of
                  (Inr permission, s') \<Rightarrow> (Response 201 (PermissionBody (Some permission)), s')
                | (Inl e, s') \<Rightarrow> (Response 400 (Message ''Invalid permission data''), s')))
     \<noteq> Some 403" for ins
    using status_createFilePermission [of s ins] by auto
  have p: "status (fst (case updateFilePermission s i upd of
                  (Inr permission, s') \<Rightarrow> (Response 200 (PermissionBody permission), s')
                | (Inl e, s') \<Rightarrow> (Response 400 (Message ''Invalid permission data''), s')))
     \<noteq> Some 403" for i upd
    using status_updateFilePermission [of s i upd] by auto
  have post: "status (fst (post_permission s (Some u) n b)) \<noteq> Some 403 \<longleftrightarrow>
            isAdmin u \<or> uploadedBy file = u_id u \<or>
            (\<exists>p. getUserFilePermission s (f_id file) (u_id u) = Some p \<and>
                 canRead p \<and> canShare p)"
    using assms param c
    by (auto simp: post_permission_def ensureFileAccess_def status_def split: option.splits)
  have patch: "status (fst (patch_permission s (Some u) n pid b)) \<noteq> Some 403 \<longleftrightarrow>
            isAdmin u \<or> uploadedBy file = u_id u"
    using assms param p
    by (auto simp: patch_permission_def ensureFileAccess_def status_def split: option.splits)
  have del: "status (fst (delete_permission s (Some u) n pid)) \<noteq> Some 403 \<longleftrightarrow>
            isAdmin u \<or> uploadedBy file = u_id u"
    using assms param
    by (auto simp: delete_permission_def ensureFileAccess_def status_def sendStatus_def
             split: option.splits sum.splits)
  from post patch del show ?thesis by blast
qed

theorem grant_management_authorization_witness:
  "getFile shared_server (Num 1) = Inr (Some report) \<and>
   getUserFilePermission shared_server (f_id report) (u_id bob) = Some bob_on_report \<and>
   canRead bob_on_report \<and> canShare bob_on_report \<and>
   status (fst (post_permission shared_server (Some bob) (Num 1) (share_with 4))) = Some 201 \<and>
   status (fst (patch_permission shared_server (Some alice) (Num 1) (Num 2) revoke_read))
     = Some 200 \<and>
   status (fst (delete_permission shared_server (Some alice) (Num 1) (Num 2))) = Some 200"
proof -
  have f: "getFile shared_server (Num 1) = Inr (Some report)"
    by (simp add: getFile_def int4_def example_defs)
  from grant_management_authorization [OF f, of bob "share_with 4"] f show ?thesis
    by (simp add: post_permission_def patch_permission_def delete_permission_def
          ensureFileAccess_def getFile_def getUserFilePermission_def createFilePermission_def
          updateFilePermission_def deleteFilePermission_def applyPatch_def Let_def int4_def
          status_def sendStatus_def example_defs)
qed

text \<open>
  The claim as the specification words it fails: bob holds a grant on the report with
  \<open>canShare\<close> and is refused both the update and the deletion of carol's grant;
  carol holds a grant on the memo with \<open>canShare\<close> but not \<open>canRead\<close> and is
  refused the creation of a grant.
\<close>

theorem canShare_does_not_authorize_counterexample:
  "getUserFilePermission shared_server 1 (u_id bob) = Some bob_on_report \<and>
   canShare bob_on_report \<and>
   status (fst (patch_permission shared_server (Some bob) (Num 1) (Num 2) revoke_read))
     = Some 403 \<and>
   status (fst (delete_permission shared_server (Some bob) (Num 1) (Num 2))) = Some 403 \<and>
   getUserFilePermission shared_server 2 (u_id carol) = Some carol_on_memo \<and>
   canShare carol_on_memo \<and>
   status (fst (post_permission shared_server (Some carol) (Num 2) (share_with 1))) = Some 403"
  by (simp add: post_permission_def patch_permission_def delete_permission_def
        ensureFileAccess_def getFile_def getUserFilePermission_def int4_def status_def
        example_defs)

subsection \<open>Permission ids and file ids\<close>

lemma filter_same_id:
  "distinct (map p_id ps) \<Longrightarrow> p \<in> set ps \<Longrightarrow> filter (\<lambda>q. p_id q = p_id p) ps = [p]"
proof (induction ps)
  case Nil
  then show ?case by simp
next
  case (Cons a ps)
  show ?case
  proof (cases "a = p")
    case True
    with Cons.prems have "p_id p \<notin> p_id ` set ps" by simp
    then have "\<forall>q\<in>set ps. p_id q \<noteq> p_id p" by (metis image_eqI)
    then have "filter (\<lambda>q. p_id q = p_id p) ps = []" by (simp add: filter_empty_conv)
    with True show ?thesis by simp
  next
    case False
    with Cons.prems have "p \<in> set ps" and "p_id a \<noteq> p_id p" by auto
    with Cons show ?thesis by simp
  qed
qed

lemma filter_other_ids:
  "distinct (map p_id ps) \<Longrightarrow> p \<in> set ps \<Longrightarrow>
   set (filter (\<lambda>q. p_id q \<noteq> p_id p) ps) = set ps - {p}"
  by (auto simp: distinct_map inj_on_def)

text \<open>
  C9. When the actor is an administrator or the uploader of the file named in the path,
  PATCH and DELETE act on the row whose key is the \<open>permissionId\<close> of the path even
  when that row belongs to another file: the update is answered 200 with the changed
  row, and the table then holds the changed row in place of the old one and every other
  row as before; the deletion is answered 200 and the table holds every row but that one.
  (The body of the PATCH sets at least one flag; permission ids are a primary key.)
\<close>

theorem permission_id_not_tied_to_file:
  assumes "getFile s n = Inr (Some file)" and "isAdmin u \<or> uploadedBy file = u_id u"
    and "p \<in> set (filePermissions s)" and "fileId p \<noteq> f_id file"
    and "distinct (map p_id (filePermissions s))" and "int4 (p_id p)"
    and "body_canRead b \<noteq> None \<or> body_canWrite b \<noteq> None \<or> body_canShare b \<noteq> None"
  shows "fst (patch_permission s (Some u) n (Num (p_id p)) b) =
           Response 200 (PermissionBody (Some (applyPatch
               \<lparr>set_canRead = body_canRead b, set_canWrite = body_canWrite b,
                set_canShare = body_canShare b\<rparr> p))) \<and>
         set (filePermissions (snd (patch_permission s (Some u) n (Num (p_id p)) b)))
           = (set (filePermissions s) - {p}) \<union>
             {applyPatch \<lparr>set_canRead = body_canRead b, set_canWrite = body_canWrite b,
                set_canShare = body_canShare b\<rparr> p} \<and>
         fst (delete_permission s (Some u) n (Num (p_id p))) = Response 200 NoBody \<and>
         set (filePermissions (snd (delete_permission s (Some u) n (Num (p_id p)))))
           = set (filePermissions s) - {p}"
proof -
  let ?upd = "\<lparr>set_canRead = body_canRead b, set_canWrite = body_canWrite b,
                set_canShare = body_canShare b\<rparr>"
  have gate: "ensureFileAccess s (Some u) n = Next"
    using assms(1,2) by (rule ensureFileAccess_owner_admin)
  have upd: "\<not> (body_canRead b = None \<and> body_canWrite b = None \<and> body_canShare b = None)"
    using assms(7) by blast
  have hit: "filter (\<lambda>q. p_id q = p_id p) (filePermissions s) = [p]"
    using assms(5,3) by (rule filter_same_id)
  have rest: "set (filter (\<lambda>q. p_id q \<noteq> p_id p) (filePermissions s))
                = set (filePermissions s) - {p}"
    using assms(5,3) by (rule filter_other_ids)
  have run: "updateFilePermission s (Num (p_id p)) ?upd =
               (Inr (Some (applyPatch ?upd p)),
                s\<lparr>filePermissions :=
                    filter (\<lambda>q. p_id q \<noteq> p_id p) (filePermissions s) @ [applyPatch ?upd p]\<rparr>)"
    using upd assms(6) hit by (simp add: updateFilePermission_def Let_def)
  have patch: "patch_permission s (Some u) n (Num (p_id p)) b =
                 (Response 200 (PermissionBody (Some (applyPatch ?upd p))),
                  s\<lparr>filePermissions :=
                      filter (\<lambda>q. p_id q \<noteq> p_id p) (filePermissions s)
                        @ [applyPatch ?upd p]\<rparr>)"
    using assms(1,2) by (simp add: patch_permission_def gate run)
  have del: "delete_permission s (Some u) n (Num (p_id p)) =
               (Response 200 NoBody,
                s\<lparr>filePermissions := filter (\<lambda>q. p_id q \<noteq> p_id p) (filePermissions s)\<rparr>)"
    using assms(1,2,6)
    by (auto simp: delete_permission_def gate deleteFilePermission_def sendStatus_def)
  show ?thesis
    using rest by (simp add: patch del)
qed

theorem permission_id_not_tied_to_file_witness:
  "getFile shared_server (Num 2) = Inr (Some memo) \<and> uploadedBy memo = u_id bob \<and>
   bob_on_report \<in> set (filePermissions shared_server) \<and> fileId bob_on_report = 1 \<and>
   patch_permission shared_server (Some bob) (Num 2) (Num 1) allow_write =
     (Response 200 (PermissionBody (Some (bob_on_report\<lparr>canWrite := True\<rparr>))),
      shared_server\<lparr>filePermissions :=
        [carol_on_report, carol_on_memo, bob_on_report\<lparr>canWrite := True\<rparr>]\<rparr>) \<and>
   delete_permission shared_server (Some bob) (Num 2) (Num 1) =
     (Response 200 NoBody,
      shared_server\<lparr>filePermissions := [carol_on_report, carol_on_memo]\<rparr>)"
proof -
  have f: "getFile shared_server (Num 2) = Inr (Some memo)"
    by (simp add: getFile_def int4_def example_defs)
  have o: "isAdmin bob \<or> uploadedBy memo = u_id bob"
    by (simp add: example_defs)
  have o': "uploadedBy memo = u_id bob"
    by (simp add: example_defs)
  have r: "bob_on_report \<in> set (filePermissions shared_server)"
    by (simp add: example_defs)
  have d: "fileId bob_on_report \<noteq> f_id memo"
    by (simp add: example_defs)
  have k: "distinct (map p_id (filePermissions shared_server))"
    by (simp add: example_defs)
  have i: "int4 (p_id bob_on_report)"
    by (simp add: int4_def example_defs)
  have b: "body_canRead allow_write \<noteq> None \<or> body_canWrite allow_write \<noteq> None \<or>
           body_canShare allow_write \<noteq> None"
    by (simp add: example_defs)
  from permission_id_not_tied_to_file [OF f o r d k i b] f o' show ?thesis
    by (simp add: patch_permission_def delete_permission_def ensureFileAccess_def getFile_def
          updateFilePermission_def deleteFilePermission_def applyPatch_def Let_def int4_def
          sendStatus_def example_defs)
qed

subsection \<open>Deleting a file\<close>

text \<open>
  C10. DELETE /api/files/:id answers 200 only to an administrator; any other
  authenticated requester, the uploader of the file included, gets 403 and the state is
  left as it was.
\<close>

theorem delete_file_admin_only:
  "(status (fst (delete_file s (Some u) i)) = Some 200 \<longrightarrow> isAdmin u) \<and>
   (\<not> isAdmin u \<longrightarrow> delete_file s (Some u) i = (Response 403 NoBody, s))"
  by (auto simp: delete_file_def status_def sendStatus_def split: option.splits)

theorem delete_file_admin_only_witness:
  "\<not> isAdmin alice \<and> getFile shared_server (Num 1) = Inr (Some report) \<and>
   uploadedBy report = u_id alice \<and>
   delete_file shared_server (Some alice) (Num 1) = (Response 403 NoBody, shared_server) \<and>
   status (fst (delete_file shared_server (Some root) (Num 1))) = Some 200 \<and> isAdmin root"
  using delete_file_admin_only [of shared_server alice "Num 1"]
    delete_file_admin_only [of shared_server root "Num 1"]
  by (simp add: delete_file_def status_def sendStatus_def getFile_def unlink_def int4_def
        example_defs)

subsection \<open>Grant rows per file and user\<close>

lemma primaryKeyOk_fresh:
  "primaryKeyOk s \<Longrightarrow> permissionSeq s \<notin> p_id ` set (filePermissions s)"
  by (auto simp: primaryKeyOk_def list_all_iff)

text \<open>
  C1, as the table has it. Grant rows are told apart by their primary key only: no id
  occurs twice. Creating a grant for an existing file and an existing user never fails
  and never replaces: it appends one row with a fresh id and leaves the rows before it
  as they were, so the rows of that file and user are one more than before.
\<close>

theorem createFilePermission_appends_row:
  assumes "primaryKeyOk s" and "ins_userId ins = Some uid"
    and "ins_fileId ins \<in> f_id ` set (files s)" and "uid \<in> u_id ` set (users s)"
  shows "\<exists>p s'. createFilePermission s ins = (Inr p, s') \<and>
           fileId p = ins_fileId ins \<and> userId p = uid \<and>
           filePermissions s' = filePermissions s @ [p] \<and>
           p_id p \<notin> p_id ` set (filePermissions s) \<and>
           primaryKeyOk s' \<and>
           length (filter (\<lambda>q. fileId q = ins_fileId ins \<and> userId q = uid) (filePermissions s'))
             = Suc (length (filter (\<lambda>q. fileId q = ins_fileId ins \<and> userId q = uid)
                              (filePermissions s)))"
proof -
  let ?p = "\<lparr>p_id = permissionSeq s, fileId = ins_fileId ins, userId = uid,
             canRead = ins_canRead ins, canWrite = ins_canWrite ins,
             canShare = ins_canShare ins\<rparr>"
  let ?s' = "s\<lparr>permissionSeq := permissionSeq s + 1,
               filePermissions := filePermissions s @ [?p]\<rparr>"
  have run: "createFilePermission s ins = (Inr ?p, ?s')"
    using assms(2,3,4) by (simp add: createFilePermission_def Let_def)
  have new: "p_id ?p \<notin> p_id ` set (filePermissions s)"
    using primaryKeyOk_fresh [OF assms(1)] by simp
  have keys: "primaryKeyOk ?s'"
    using assms(1) new by (auto simp: primaryKeyOk_def list_all_iff)
  show ?thesis
    using run new keys by simp
qed

theorem createFilePermission_appends_row_witness:
  "primaryKeyOk shared_server \<and>
   getUserFilePermission shared_server 1 2 = Some bob_on_report \<and>
   createFilePermission shared_server
       \<lparr>ins_fileId = 1, ins_userId = Some 2, ins_canRead = True, ins_canWrite = True,
        ins_canShare = False\<rparr>
     = (Inr \<lparr>p_id = 4, fileId = 1, userId = 2, canRead = True, canWrite = True,
              canShare = False\<rparr>,
        shared_server\<lparr>permissionSeq := 5,
          filePermissions := [bob_on_report, carol_on_report, carol_on_memo,
            \<lparr>p_id = 4, fileId = 1, userId = 2, canRead = True, canWrite = True,
              canShare = False\<rparr>]\<rparr>)"
proof -
  have k: "primaryKeyOk shared_server"
    by (simp add: primaryKeyOk_def example_defs)
  have u: "ins_userId \<lparr>ins_fileId = 1, ins_userId = Some 2, ins_canRead = True,
             ins_canWrite = True, ins_canShare = False\<rparr> = Some 2"
    by simp
  have f: "ins_fileId \<lparr>ins_fileId = 1, ins_userId = Some 2, ins_canRead = True,
             ins_canWrite = True, ins_canShare = False\<rparr> \<in> f_id ` set (files shared_server)"
    by (simp add: example_defs)
  have m: "2 \<in> u_id ` set (users shared_server)"
    by (simp add: example_defs)
  from createFilePermission_appends_row [OF k u f m] k show ?thesis
    by (simp add: createFilePermission_def getUserFilePermission_def Let_def example_defs)
qed

text \<open>
  The claim as the specification words it fails: alice shares the report with bob twice,
  both requests are answered 201, and the table then holds two rows for that file and
  that user.
\<close>

theorem second_grant_duplicates_counterexample:
  "fst (post_permission fresh_server (Some alice) (Num 1) (share_with 2))
     = Response 201 (PermissionBody (Some
         \<lparr>p_id = 1, fileId = 1, userId = 2, canRead = True, canWrite = False,
          canShare = False\<rparr>)) \<and>
   fst (post_permission (snd (post_permission fresh_server (Some alice) (Num 1) (share_with 2)))
          (Some alice) (Num 1) (share_with 2))
     = Response 201 (PermissionBody (Some
         \<lparr>p_id = 2, fileId = 1, userId = 2, canRead = True, canWrite = False,
          canShare = False\<rparr>)) \<and>
   filePermissions
     (snd (post_permission
             (snd (post_permission fresh_server (Some alice) (Num 1) (share_with 2)))
             (Some alice) (Num 1) (share_with 2)))
     = [\<lparr>p_id = 1, fileId = 1, userId = 2, canRead = True, canWrite = False,
          canShare = False\<rparr>,
        \<lparr>p_id = 2, fileId = 1, userId = 2, canRead = True, canWrite = False,
          canShare = False\<rparr>]"
  by (simp add: post_permission_def ensureFileAccess_def getFile_def int4_def
        createFilePermission_def Let_def example_defs)

subsection \<open>What the sockets are sent\<close>

text \<open>
  C2, as the message handler has it. Whatever a connected client sends in is passed on
  as it is to every socket whose state is \<open>OPEN\<close>, the sender's among them, and to
  no other socket; the sockets stay the same, and the users, the files, the grants, the
  sequence and the upload directory are left as they were.
\<close>

theorem onMessage_relays_verbatim:
  "length (clients (onMessage s m)) = length (clients s) \<and>
   (\<forall>i < length (clients s).
      c_id (clients (onMessage s m) ! i) = c_id (clients s ! i) \<and>
      readyState (clients (onMessage s m) ! i) = readyState (clients s ! i) \<and>
      sent (clients (onMessage s m) ! i)
        = (if readyState (clients s ! i) = OPEN then sent (clients s ! i) @ [m]
           else sent (clients s ! i))) \<and>
   users (onMessage s m) = users s \<and>
   files (onMessage s m) = files s \<and>
   filePermissions (onMessage s m) = filePermissions s \<and>
   permissionSeq (onMessage s m) = permissionSeq s \<and>
   disk (onMessage s m) = disk s \<and>
   onMessage s m = s\<lparr>clients := clients (onMessage s m)\<rparr>"
  by (simp add: onMessage_def)

theorem onMessage_relays_verbatim_witness:
  "length (clients (onMessage fresh_server ''anything at all'')) = 2 \<and>
   sent (clients (onMessage fresh_server ''anything at all'') ! 0) = [''anything at all''] \<and>
   sent (clients (onMessage fresh_server ''anything at all'') ! 1) = [] \<and>
   files (onMessage fresh_server ''anything at all'') = [report, memo]"
  using onMessage_relays_verbatim [of fresh_server "''anything at all''"]
  by (simp add: onMessage_def example_defs)

text \<open>
  The claim as the specification words it fails: a client sends the text "hello", which
  is no event of the server and follows no grant mutation, and the open socket is sent
  that very text.
\<close>

theorem inbound_message_rebroadcast_counterexample:
  "clients (onMessage fresh_server ''hello'')
     = [\<lparr>c_id = 0, readyState = OPEN, sent = [''hello'']\<rparr>,
        \<lparr>c_id = 1, readyState = CLOSED, sent = []\<rparr>]"
  by (simp add: onMessage_def example_defs)

lemma clients_createFilePermission:
  "clients (snd (case createFilePermission s ins of
                  (Inr permission, s') \<Rightarrow> (Response 201 (PermissionBody (Some permission)), s')
                | (Inl e, s') \<Rightarrow> (Response 400 (Message ''Invalid permission data''), s')))
     = clients s"
  by (simp add: createFilePermission_def Let_def split: option.splits)

lemma clients_updateFilePermission:
  "clients (snd (case updateFilePermission s n upd of
                  (Inr permission, s') \<Rightarrow> (Response 200 (PermissionBody permission), s')
                | (Inl e, s') \<Rightarrow> (Response 400 (Message ''Invalid permission data''), s')))
     = clients s"
  by (simp add: updateFilePermission_def Let_def split: sum.splits)

text \<open>
  C5, as the routes have it. Creating, updating and deleting a grant leave every socket
  as it was, whether the request commits or is refused: no socket, open or not, is sent
  anything by a grant mutation.
\<close>

theorem grant_mutations_send_nothing:
  "clients (snd (post_permission s reqUser fid b)) = clients s \<and>
   clients (snd (patch_permission s reqUser fid pid b)) = clients s \<and>
   clients (snd (delete_permission s reqUser fid pid)) = clients s"
proof -
  have "clients (snd (post_permission s reqUser fid b)) = clients s"
    by (simp add: post_permission_def clients_createFilePermission
          split: gate.splits option.splits sum.splits)
  moreover have "clients (snd (patch_permission s reqUser fid pid b)) = clients s"
    by (simp add: patch_permission_def clients_updateFilePermission
          split: gate.splits option.splits sum.splits)
  moreover have "clients (snd (delete_permission s reqUser fid pid)) = clients s"
    by (auto simp: delete_permission_def deleteFilePermission_def
          split: gate.splits option.splits sum.splits)
  ultimately show ?thesis by blast
qed

theorem grant_mutations_send_nothing_witness:
  "fst (patch_permission shared_server (Some alice) (Num 1) (Num 1) revoke_read)
     = Response 200 (PermissionBody (Some (bob_on_report\<lparr>canRead := False\<rparr>))) \<and>
   clients (snd (patch_permission shared_server (Some alice) (Num 1) (Num 1) revoke_read))
     = clients shared_server"
  using grant_mutations_send_nothing [of shared_server "Some alice" "Num 1" revoke_read "Num 1"]
  by (simp add: patch_permission_def ensureFileAccess_def getFile_def int4_def
        updateFilePermission_def applyPatch_def Let_def example_defs)

text \<open>
  The claim as the specification words it fails: alice's update of bob's grant commits
  (200, the row comes back changed) while a socket is open, and that socket has been sent
  no message at all.
\<close>

theorem committed_update_notifies_nobody_counterexample:
  "fst (patch_permission shared_server (Some alice) (Num 1) (Num 1) revoke_read)
     = Response 200 (PermissionBody (Some
         \<lparr>p_id = 1, fileId = 1, userId = 2, canRead = False, canWrite = False,
          canShare = True\<rparr>)) \<and>
   clients (snd (patch_permission shared_server (Some alice) (Num 1) (Num 1) revoke_read))
     = [\<lparr>c_id = 0, readyState = OPEN, sent = []\<rparr>,
        \<lparr>c_id = 1, readyState = CLOSED, sent = []\<rparr>]"
  by (simp add: patch_permission_def ensureFileAccess_def getFile_def int4_def
        updateFilePermission_def applyPatch_def Let_def example_defs)

subsection \<open>Sharing with oneself\<close>

text \<open>
  C4. The share dialog refuses a user who names themself ("You cannot share with
  yourself") and sends nothing. The POST route has no such check: the same grant, posted
  to the server directly by the uploader or by the administrator, is answered 201 and
  the row is stored.
\<close>

theorem self_grant_accepted:
  "handleAddPermission (users fresh_server) (Some alice) ''alice'' = InvalidOperation \<and>
   post_permission fresh_server (Some alice) (Num 1) (share_with (u_id alice))
     = (Response 201 (PermissionBody (Some
          \<lparr>p_id = 1, fileId = 1, userId = 1, canRead = True, canWrite = False,
           canShare = False\<rparr>)),
        fresh_server\<lparr>permissionSeq := 2,
          filePermissions := [\<lparr>p_id = 1, fileId = 1, userId = 1, canRead = True,
            canWrite = False, canShare = False\<rparr>]\<rparr>) \<and>
   fst (post_permission fresh_server (Some root) (Num 1) (share_with (u_id root)))
     = Response 201 (PermissionBody (Some
          \<lparr>p_id = 1, fileId = 1, userId = 4, canRead = True, canWrite = False,
           canShare = False\<rparr>))"
  by (simp add: handleAddPermission_def post_permission_def ensureFileAccess_def getFile_def
        int4_def createFilePermission_def Let_def example_defs)

end
